theory Spec2Isabelle
  imports Main "HOL-Library.Char_ord" "HOL-Library.List_Lexorder"
begin

section \<open>The executor of dynago (executor.go)\<close>

text \<open>
  A shallow embedding of \<^verbatim>\<open>executor.go\<close>: the configuration struct, the constructor
  \<^verbatim>\<open>NewAwsExecutor\<close>, the methods \<^verbatim>\<open>makeRequest\<close>, \<^verbatim>\<open>MakeRequestUnmarshal\<close> and
  \<^verbatim>\<open>SchemaExecutor\<close> of \<^verbatim>\<open>*AwsExecutor\<close>.

  Go values are modelled as follows.
  \<^item> \<^verbatim>\<open>string\<close> and \<^verbatim>\<open>[]byte\<close> are lists of 8-bit characters; the nil slice is the empty list.
  \<^item> A value of the interface type \<^verbatim>\<open>error\<close> is an \<open>'err option\<close>; \<open>None\<close> is \<^verbatim>\<open>nil\<close>.
  \<^item> A Go function returning \<^verbatim>\<open>([]byte, error)\<close> returns a pair: Go does not forbid
    that both components are set.
  \<^item> A pointer \<^verbatim>\<open>*AwsExecutor\<close> is an address into a heap of executors, or \<^verbatim>\<open>nil\<close>.
  \<^item> A panic (dereferencing \<^verbatim>\<open>nil\<close>) is the outcome \<open>None\<close> of a method.
\<close>

subsection \<open>Data\<close>

type_synonym bytes = string

type_synonym ptr = "nat option"

text \<open>The struct \<^verbatim>\<open>ExecutorConfig\<close> (lines 45-54).\<close>

record ExecutorConfig =
  Region :: string
  AccessKey :: string
  SecretKey :: string
  SessionToken :: string
  Endpoint :: string

text \<open>
  The struct \<^verbatim>\<open>aws.AwsSigner\<close>, with the fields of the composite literal of lines 62-68.
\<close>

record AwsSigner =
  signer_Region :: string
  signer_AccessKey :: string
  signer_SecretKey :: string
  signer_SessionToken :: string
  signer_Service :: string

text \<open>
  The struct \<^verbatim>\<open>aws.RequestMaker\<close>, with the fields of the composite literal of lines
  69-76. \<open>'raw\<close> is what the error hook receives, \<open>'dbg\<close> the type of a debug function.
  The signer is private to the request maker (the address of the local variable
  \<^verbatim>\<open>signer\<close> is stored nowhere else), so it is held by value.
\<close>

record ('raw, 'err, 'dbg) RequestMaker =
  rm_Endpoint :: string
  rm_Signer :: AwsSigner
  rm_BuildError :: "'raw \<Rightarrow> 'err"
  rm_DebugRequests :: bool
  rm_DebugResponses :: bool
  rm_DebugFunc :: 'dbg

text \<open>
  A value of the interface \<^verbatim>\<open>AwsRequester\<close> (lines 39-41): \<^verbatim>\<open>nil\<close>, the request maker
  that \<^verbatim>\<open>NewAwsExecutor\<close> installs, or any other implementation of
  \<^verbatim>\<open>MakeRequest(target string, body []byte) ([]byte, error)\<close>, which may read and change
  the world outside the program (\<open>'n\<close>, the network and the remote service).
\<close>

datatype ('n, 'raw, 'err, 'dbg) AwsRequester =
    Nil_Requester
  | RequestMaker_ptr "('raw, 'err, 'dbg) RequestMaker"
  | Other_Requester "string \<Rightarrow> bytes \<Rightarrow> 'n \<Rightarrow> (bytes \<times> 'err option) \<times> 'n"

text \<open>The struct \<^verbatim>\<open>AwsExecutor\<close> (lines 83-89).\<close>

record ('n, 'raw, 'err, 'dbg) AwsExecutor =
  Requester :: "('n, 'raw, 'err, 'dbg) AwsRequester"

text \<open>
  The package-level variables \<^verbatim>\<open>Debug\<close> and \<^verbatim>\<open>DebugFunc\<close> that the constructor reads
  (lines 73-75). Their declarations are not in \<^verbatim>\<open>executor.go\<close>; \<open>'flags\<close> is the type of
  \<^verbatim>\<open>Debug\<close>.
\<close>

record ('flags, 'dbg) globals =
  Debug :: 'flags
  DebugFunc :: 'dbg

text \<open>
  What \<^verbatim>\<open>executor.go\<close> uses of the rest of the repository, taken as parameters:
  \<^verbatim>\<open>aws.FixEndpointUrl\<close>, \<^verbatim>\<open>buildError\<close>, the method \<^verbatim>\<open>HasFlag\<close> of \<^verbatim>\<open>Debug\<close> and the flag
  constants \<^verbatim>\<open>DebugRequests\<close> and \<^verbatim>\<open>DebugResponses\<close>.
\<close>

record ('flags, 'raw, 'err) package =
  FixEndpointUrl :: "string \<Rightarrow> string"
  buildError :: "'raw \<Rightarrow> 'err"
  HasFlag :: "'flags \<Rightarrow> 'flags \<Rightarrow> bool"
  DebugRequests :: 'flags
  DebugResponses :: 'flags

text \<open>
  The functions \<^verbatim>\<open>json.Marshal\<close> and \<^verbatim>\<open>json.Unmarshal\<close> of the Go library, taken as
  parameters. \<^verbatim>\<open>json.Unmarshal(body, dest)\<close> writes through \<^verbatim>\<open>dest\<close> and returns an error:
  the model returns the destination as it leaves it, together with the error.
\<close>

record ('doc, 'dest, 'err) json =
  Marshal :: "'doc \<Rightarrow> bytes \<times> 'err option"
  Unmarshal :: "bytes \<Rightarrow> 'dest \<Rightarrow> 'dest \<times> 'err option"

subsection \<open>The request on the wire and the observable effects\<close>

record request =
  req_url :: string
  req_headers :: "(string \<times> string) list"
  req_body :: bytes

text \<open>
  The effects of a run, in order: a call of the method \<^verbatim>\<open>MakeRequest\<close> of the requester
  (line 96), a call of \<^verbatim>\<open>json.Unmarshal\<close> (line 111), a request handed to the transport by
  the request maker, and a call of a debug function by the request maker.
\<close>

datatype ('raw, 'dbg) event =
    is_Requester_call: Requester_call string bytes
  | is_Unmarshal_call: Unmarshal_call bytes
  | is_Transport_send: Transport_send request
  | Debug_request 'dbg request
  | Debug_response 'dbg "'raw + bytes"

text \<open>
  The state of a run: the heap of executors (a pointer is an index into it), the
  package-level debug variables, the world outside the program and the effects so far.
\<close>

record ('n, 'flags, 'raw, 'err, 'dbg) state =
  heap :: "('n, 'raw, 'err, 'dbg) AwsExecutor list"
  globals :: "('flags, 'dbg) globals"
  network :: 'n
  trace :: "('raw, 'dbg) event list"

definition deref :: "'a list \<Rightarrow> ptr \<Rightarrow> 'a option" where
  "deref h p = (case p of None \<Rightarrow> None
                | Some a \<Rightarrow> if a < length h then Some (h ! a) else None)"

definition emit :: "('raw, 'dbg) event \<Rightarrow> ('n, 'flags, 'raw, 'err, 'dbg) state
    \<Rightarrow> ('n, 'flags, 'raw, 'err, 'dbg) state" where
  "emit ev s = s\<lparr>trace := trace s @ [ev]\<rparr>"

subsection \<open>NewAwsExecutor (lines 57-78)\<close>

text \<open>
  Lines 58-60: the assignment to the parameter \<^verbatim>\<open>config\<close>. The result is the value of the
  local variable \<^verbatim>\<open>config\<close> after the \<^verbatim>\<open>if\<close>.
\<close>

definition default_Endpoint :: "ExecutorConfig \<Rightarrow> ExecutorConfig" where
  "default_Endpoint config =
     (if Endpoint config = ''''
      then config\<lparr>Endpoint := ''https://dynamodb.'' @ Region config @ ''.amazonaws.com/''\<rparr>
      else config)"

text \<open>Lines 62-68: the signer built from the local \<^verbatim>\<open>config\<close>.\<close>

definition new_signer :: "ExecutorConfig \<Rightarrow> AwsSigner" where
  "new_signer config =
     \<lparr>signer_Region = Region config,
      signer_AccessKey = AccessKey config,
      signer_SecretKey = SecretKey config,
      signer_SessionToken = SessionToken config,
      signer_Service = ''dynamodb''\<rparr>"

text \<open>Lines 69-76: the request maker built from the local \<^verbatim>\<open>config\<close> and the globals.\<close>

definition new_requester :: "('flags, 'raw, 'err) package \<Rightarrow> ('flags, 'dbg) globals
    \<Rightarrow> ExecutorConfig \<Rightarrow> ('raw, 'err, 'dbg) RequestMaker" where
  "new_requester pkg g config =
     \<lparr>rm_Endpoint = FixEndpointUrl pkg (Endpoint config),
      rm_Signer = new_signer config,
      rm_BuildError = buildError pkg,
      rm_DebugRequests = HasFlag pkg (Debug g) (DebugRequests pkg),
      rm_DebugResponses = HasFlag pkg (Debug g) (DebugResponses pkg),
      rm_DebugFunc = DebugFunc g\<rparr>"

text \<open>
  Lines 62-77, on the value of the local \<^verbatim>\<open>config\<close> after line 60. Line 77 allocates the
  executor: the pointer returned is the next free address of the heap.
\<close>

definition new_executor :: "('flags, 'raw, 'err) package \<Rightarrow> ExecutorConfig
    \<Rightarrow> ('n, 'flags, 'raw, 'err, 'dbg) state \<Rightarrow> ptr \<times> ('n, 'flags, 'raw, 'err, 'dbg) state" where
  "new_executor pkg config s =
     (let requester = new_requester pkg (globals s) config
      in (Some (length (heap s)),
          s\<lparr>heap := heap s @ [\<lparr>Requester = RequestMaker_ptr requester\<rparr>]\<rparr>))"

text \<open>The constructor, on the value of its argument.\<close>

definition NewAwsExecutor :: "('flags, 'raw, 'err) package \<Rightarrow> ExecutorConfig
    \<Rightarrow> ('n, 'flags, 'raw, 'err, 'dbg) state \<Rightarrow> ptr \<times> ('n, 'flags, 'raw, 'err, 'dbg) state" where
  "NewAwsExecutor pkg config s = new_executor pkg (default_Endpoint config) s"

text \<open>
  A call \<^verbatim>\<open>NewAwsExecutor(x)\<close> whose argument is a variable \<^verbatim>\<open>x\<close> of the caller. The
  variables of type \<^verbatim>\<open>ExecutorConfig\<close> live in cells. The parameter \<^verbatim>\<open>config\<close> has the
  struct type (line 57), not a pointer type: it is a new cell \<open>p\<close> that receives a copy of
  the argument, lines 58-60 assign to that cell, and lines 62-77 read it. The cell of the
  parameter stays in the store, dead after the return. A variable that does not exist
  has no call.
\<close>

definition call_NewAwsExecutor :: "('flags, 'raw, 'err) package \<Rightarrow> nat \<Rightarrow> ExecutorConfig list
    \<Rightarrow> ('n, 'flags, 'raw, 'err, 'dbg) state
    \<Rightarrow> (ptr \<times> ExecutorConfig list \<times> ('n, 'flags, 'raw, 'err, 'dbg) state) option" where
  "call_NewAwsExecutor pkg x cells s =
     (if x < length cells then
        (let p = length cells;
             cells1 = cells @ [cells ! x];
             cells2 = (if Endpoint (cells1 ! p) = ''''
                       then cells1[p := (cells1 ! p)\<lparr>Endpoint :=
                              ''https://dynamodb.'' @ Region (cells1 ! p) @ ''.amazonaws.com/''\<rparr>]
                       else cells1);
             (e, s') = new_executor pkg (cells2 ! p) s
         in Some (e, cells2, s'))
      else None)"

subsection \<open>The signer and the request maker of package aws\<close>

text \<open>
  What the signing scheme and the wire protocol fix and the specification leaves open: the
  hash and the keyed hash, the two renderings of a timestamp, the request method and
  path, the names of the headers and the content type. With them, the transport (one
  request in, a response body or a raw failure out, on the world outside the program) and
  the clock.
\<close>

record ('n, 'raw, 'ts) environment =
  Transport :: "request \<Rightarrow> 'n \<Rightarrow> ('raw + bytes) \<times> 'n"
  now :: "'n \<Rightarrow> 'ts"
  hash :: "bytes \<Rightarrow> bytes"
  keyed_hash :: "bytes \<Rightarrow> bytes \<Rightarrow> bytes"
  date_of :: "'ts \<Rightarrow> string"
  stamp_of :: "'ts \<Rightarrow> string"
  http_method :: string
  canonical_uri :: string
  header_authorization :: string
  header_timestamp :: string
  header_token :: string
  header_target :: string
  header_content_type :: string
  content_type :: string

text \<open>Lower case of an ASCII letter, and the line feed that separates the parts signed.\<close>

definition lower_char :: "char \<Rightarrow> char" where
  "lower_char c =
     (if CHR ''A'' \<le> c \<and> c \<le> CHR ''Z'' then char_of (of_char c + (32::nat)) else c)"

definition newline :: string where
  "newline = [CHR 0x0A]"

text \<open>
  Modelled from the spec: the signing key of \<^verbatim>\<open>aws.AwsSigner\<close>, whose code is not in
  \<^verbatim>\<open>executor.go\<close> (section 4.1: derived from the secret key, the date, the region and the
  service identifier, chained through keyed-hash steps).
\<close>

definition signing_key :: "('n, 'raw, 'ts) environment \<Rightarrow> AwsSigner \<Rightarrow> 'ts \<Rightarrow> bytes" where
  "signing_key env sg ts =
     keyed_hash env
       (keyed_hash env
          (keyed_hash env (signer_SecretKey sg) (date_of env ts))
          (signer_Region sg))
       (signer_Service sg)"

text \<open>
  Modelled from the spec: the canonical headers of section 4.1 (sorted, lower-cased,
  deduplicated).
\<close>

definition canonical_headers :: "(string \<times> string) list \<Rightarrow> (string \<times> string) list" where
  "canonical_headers hs =
     remdups (sort_key fst (map (\<lambda>(k, v). (map lower_char k, v)) hs))"

text \<open>
  Modelled from the spec: the canonical request of section 4.1 (method, canonical URI,
  empty canonical query string, canonical headers, hash of the body).
\<close>

definition canonical_request :: "('n, 'raw, 'ts) environment \<Rightarrow> (string \<times> string) list
    \<Rightarrow> bytes \<Rightarrow> bytes" where
  "canonical_request env hs body =
     http_method env @ newline @ canonical_uri env @ newline @ [] @ newline
     @ concat (map (\<lambda>(k, v). k @ '':'' @ v @ newline) (canonical_headers hs))
     @ newline @ hash env body"

text \<open>Modelled from the spec: the scope string of section 4.1 (date/region/service).\<close>

definition scope :: "('n, 'raw, 'ts) environment \<Rightarrow> AwsSigner \<Rightarrow> 'ts \<Rightarrow> string" where
  "scope env sg ts =
     date_of env ts @ ''/'' @ signer_Region sg @ ''/'' @ signer_Service sg"

text \<open>
  Modelled from the spec: the headers that travel with every request next to the
  authorization header (section 4.1 and section 6): the timestamp, the operation target
  and, if a session token is present, the security token.
\<close>

definition signed_headers :: "('n, 'raw, 'ts) environment \<Rightarrow> AwsSigner \<Rightarrow> string \<Rightarrow> 'ts
    \<Rightarrow> (string \<times> string) list" where
  "signed_headers env sg target ts =
     [(header_timestamp env, stamp_of env ts), (header_target env, target)]
     @ (if signer_SessionToken sg = [] then []
        else [(header_token env, signer_SessionToken sg)])"

text \<open>
  Modelled from the spec: the signature of section 4.1, the keyed hash, under the signing
  key, of the string to sign (the scope combined with the hash of the canonical request).
\<close>

definition signature :: "('n, 'raw, 'ts) environment \<Rightarrow> AwsSigner \<Rightarrow> string \<Rightarrow> bytes \<Rightarrow> 'ts
    \<Rightarrow> bytes" where
  "signature env sg target body ts =
     keyed_hash env (signing_key env sg ts)
       (stamp_of env ts @ newline @ scope env sg ts @ newline
        @ hash env (canonical_request env (signed_headers env sg target ts) body))"

text \<open>
  Modelled from the spec: the contract \<^verbatim>\<open>sign(operationTarget, body, timestamp) -> headers\<close>
  of section 4.1, the method of \<^verbatim>\<open>aws.AwsSigner\<close> that is not in \<^verbatim>\<open>executor.go\<close>. The
  authorization header names the access key and the scope and carries the signature.
\<close>

definition sign :: "('n, 'raw, 'ts) environment \<Rightarrow> AwsSigner \<Rightarrow> string \<Rightarrow> bytes \<Rightarrow> 'ts
    \<Rightarrow> (string \<times> string) list" where
  "sign env sg target body ts =
     (header_authorization env,
      signer_AccessKey sg @ ''/'' @ scope env sg ts @ '':'' @ signature env sg target body ts)
     # signed_headers env sg target ts"

text \<open>
  Modelled from the spec: the outbound request that \<^verbatim>\<open>aws.RequestMaker\<close> builds (section
  4.2): against the configured endpoint, with the body exactly as given, the headers of
  the signer and the content type of the wire protocol.
\<close>

definition signed_request :: "('n, 'raw, 'ts) environment \<Rightarrow> ('raw, 'err, 'dbg) RequestMaker
    \<Rightarrow> string \<Rightarrow> bytes \<Rightarrow> 'ts \<Rightarrow> request" where
  "signed_request env rm target body ts =
     \<lparr>req_url = rm_Endpoint rm,
      req_headers = sign env (rm_Signer rm) target body ts
                    @ [(header_content_type env, content_type env)],
      req_body = body\<rparr>"

text \<open>
  Modelled from the spec: the method \<^verbatim>\<open>MakeRequest\<close> of \<^verbatim>\<open>aws.RequestMaker\<close>, whose code is
  not in \<^verbatim>\<open>executor.go\<close> (section 4.2, \<^verbatim>\<open>dispatch(operationTarget, body)\<close>). It builds the
  request, signed at the current time, traces the request if the request flag is set,
  sends it through the transport once, traces the response if the response flag is set,
  returns the response body unmodified on success and, on failure, the error that the
  hook builds from the raw failure (with a nil body).
\<close>

definition RequestMaker_MakeRequest :: "('n, 'raw, 'ts) environment
    \<Rightarrow> ('raw, 'err, 'dbg) RequestMaker \<Rightarrow> string \<Rightarrow> bytes
    \<Rightarrow> ('n, 'flags, 'raw, 'err, 'dbg) state
    \<Rightarrow> (bytes \<times> 'err option) \<times> ('n, 'flags, 'raw, 'err, 'dbg) state" where
  "RequestMaker_MakeRequest env rm target body s =
     (let req = signed_request env rm target body (now env (network s));
          s1 = (if rm_DebugRequests rm then emit (Debug_request (rm_DebugFunc rm) req) s else s);
          (out, n) = Transport env req (network s1);
          s2 = emit (Transport_send req) (s1\<lparr>network := n\<rparr>);
          s3 = (if rm_DebugResponses rm then emit (Debug_response (rm_DebugFunc rm) out) s2
                else s2)
      in case out of
           Inr resp \<Rightarrow> ((resp, None), s3)
         | Inl raw \<Rightarrow> (([], Some (rm_BuildError rm raw)), s3))"

subsection \<open>The methods of the executor\<close>

text \<open>
  The interface call \<^verbatim>\<open>e.Requester.MakeRequest(target, buf)\<close> of line 96, on the value
  of the field \<^verbatim>\<open>Requester\<close>. A nil interface value panics. Every call is recorded.
\<close>

definition MakeRequest :: "('n, 'raw, 'ts) environment \<Rightarrow> ('n, 'raw, 'err, 'dbg) AwsRequester
    \<Rightarrow> string \<Rightarrow> bytes \<Rightarrow> ('n, 'flags, 'raw, 'err, 'dbg) state
    \<Rightarrow> ((bytes \<times> 'err option) \<times> ('n, 'flags, 'raw, 'err, 'dbg) state) option" where
  "MakeRequest env r target body s =
     (case r of
        Nil_Requester \<Rightarrow> None
      | RequestMaker_ptr rm \<Rightarrow>
          Some (RequestMaker_MakeRequest env rm target body (emit (Requester_call target body) s))
      | Other_Requester f \<Rightarrow>
          (let (res, n) = f target body (network s)
           in Some (res, (emit (Requester_call target body) s)\<lparr>network := n\<rparr>)))"

text \<open>
  \<^verbatim>\<open>makeRequest\<close> (lines 91-97). The receiver \<^verbatim>\<open>e\<close> is dereferenced at line 96 only, after
  the marshaling.
\<close>

definition makeRequest :: "('n, 'raw, 'ts) environment \<Rightarrow> ('doc, 'dest, 'err) json \<Rightarrow> ptr
    \<Rightarrow> string \<Rightarrow> 'doc \<Rightarrow> ('n, 'flags, 'raw, 'err, 'dbg) state
    \<Rightarrow> ((bytes \<times> 'err option) \<times> ('n, 'flags, 'raw, 'err, 'dbg) state) option" where
  "makeRequest env js e target document s =
     (case Marshal js document of
        (buf, Some err) \<Rightarrow> Some (([], Some err), s)
      | (buf, None) \<Rightarrow>
          (case deref (heap s) e of
             None \<Rightarrow> None
           | Some ex \<Rightarrow> MakeRequest env (Requester ex) target buf s))"

text \<open>
  \<^verbatim>\<open>MakeRequestUnmarshal\<close> (lines 106-113). The result is the destination as the call
  leaves it and the error returned.
\<close>

definition MakeRequestUnmarshal :: "('n, 'raw, 'ts) environment \<Rightarrow> ('doc, 'dest, 'err) json
    \<Rightarrow> ptr \<Rightarrow> string \<Rightarrow> 'doc \<Rightarrow> 'dest \<Rightarrow> ('n, 'flags, 'raw, 'err, 'dbg) state
    \<Rightarrow> (('dest \<times> 'err option) \<times> ('n, 'flags, 'raw, 'err, 'dbg) state) option" where
  "MakeRequestUnmarshal env js e method document dest s =
     (case makeRequest env js e method document s of
        None \<Rightarrow> None
      | Some ((body, Some err), s1) \<Rightarrow> Some ((dest, Some err), s1)
      | Some ((body, None), s1) \<Rightarrow>
          Some (Unmarshal js body dest, emit (Unmarshal_call body) s1))"

text \<open>
  \<^verbatim>\<open>SchemaExecutor\<close> (lines 116-118). The struct \<^verbatim>\<open>awsSchemaExecutor\<close> is declared outside
  \<^verbatim>\<open>executor.go\<close>; the composite literal \<^verbatim>\<open>awsSchemaExecutor{e}\<close> gives it one field, which
  holds the pointer \<^verbatim>\<open>e\<close>.
\<close>

datatype awsSchemaExecutor = awsSchemaExecutor (executor_of: ptr)

definition SchemaExecutor :: "ptr \<Rightarrow> awsSchemaExecutor" where
  "SchemaExecutor e = awsSchemaExecutor e"

text \<open>
  Modelled from the spec: the four methods of the schema sub-executor (\<^verbatim>\<open>CreateTable\<close>,
  \<^verbatim>\<open>DeleteTable\<close>, \<^verbatim>\<open>DescribeTable\<close>, \<^verbatim>\<open>ListTables\<close>), whose code is not in \<^verbatim>\<open>executor.go\<close>
  (section 4.3: each method serializes its request, calls the dispatcher with the
  method's fixed operation target and deserializes the response into its result). The
  operation targets are a parameter.
\<close>

datatype schema_method = CreateTable | DeleteTable | DescribeTable | ListTables

definition schema_call :: "('n, 'raw, 'ts) environment \<Rightarrow> ('doc, 'dest, 'err) json
    \<Rightarrow> (schema_method \<Rightarrow> string) \<Rightarrow> awsSchemaExecutor \<Rightarrow> schema_method \<Rightarrow> 'doc \<Rightarrow> 'dest
    \<Rightarrow> ('n, 'flags, 'raw, 'err, 'dbg) state
    \<Rightarrow> (('dest \<times> 'err option) \<times> ('n, 'flags, 'raw, 'err, 'dbg) state) option" where
  "schema_call env js target_of v m req dest s =
     MakeRequestUnmarshal env js (executor_of v) (target_of m) req dest s"

subsection \<open>A concrete instance\<close>

text \<open>
  One instance of every parameter, on which the theorems below are applied to concrete
  inputs. The errors of the instance:
\<close>

datatype example_error =
    Unsupported_type
  | Syntax_error
  | Unmarshal_type_error string
  | Service_error nat
  | Connection_refused

text \<open>
  The request documents of the instance: a lookup by key, and a value that
  \<^verbatim>\<open>json.Marshal\<close> rejects (in Go, a channel or a function).
\<close>

datatype example_doc = Get_key string | Unserializable

definition example_Marshal :: "example_doc \<Rightarrow> bytes \<times> example_error option" where
  \<open>example_Marshal d =
     (case d of
        Get_key k \<Rightarrow> (''{"Key":"'' @ k @ ''"}'', None)
      | Unserializable \<Rightarrow> ([], Some Unsupported_type))\<close>

text \<open>
  The destination of the instance is a struct of two integer fields, as in
  \<^verbatim>\<open>struct { Count int; ScannedCount int }\<close>.
\<close>

record counts =
  Count :: nat
  ScannedCount :: nat

text \<open>
  \<^verbatim>\<open>json.Unmarshal\<close> into that struct, on the fragment of JSON that the instance needs:
  an object whose members are numbers or strings, without white space or escapes. As the
  documentation of \<^verbatim>\<open>encoding/json\<close> describes it, the input is checked for syntax before
  anything is written; then the members are decoded in order, a member whose value does
  not fit the type of its field is skipped, the decoding goes on, and the error returned
  is the earliest such mismatch. A member that names no field is ignored.
\<close>

datatype jvalue = JNumber nat | JString string

definition is_digit :: "char \<Rightarrow> bool" where
  "is_digit c = (CHR ''0'' \<le> c \<and> c \<le> CHR ''9'')"

definition digits_value :: "string \<Rightarrow> nat" where
  "digits_value ds = foldl (\<lambda>n c. 10 * n + (of_char c - 48)) 0 ds"

definition parse_value :: "string \<Rightarrow> (jvalue \<times> string) option" where
  "parse_value cs =
     (case cs of
        [] \<Rightarrow> None
      | c # rest \<Rightarrow>
          if c = CHR 0x22 then
            (case dropWhile (\<lambda>d. d \<noteq> CHR 0x22) rest of
               [] \<Rightarrow> None
             | _ # after \<Rightarrow> Some (JString (takeWhile (\<lambda>d. d \<noteq> CHR 0x22) rest), after))
          else if is_digit c then
            Some (JNumber (digits_value (takeWhile is_digit cs)), dropWhile is_digit cs)
          else None)"

definition parse_member :: "string \<Rightarrow> ((string \<times> jvalue) \<times> string) option" where
  "parse_member cs =
     (case parse_value cs of
        Some (JString k, c # rest) \<Rightarrow>
          if c = CHR '':'' then
            (case parse_value rest of
               Some (v, after) \<Rightarrow> Some ((k, v), after)
             | None \<Rightarrow> None)
          else None
      | _ \<Rightarrow> None)"

text \<open>The members up to the closing brace; the first argument bounds their number.\<close>

fun parse_members :: "nat \<Rightarrow> string \<Rightarrow> (string \<times> jvalue) list option" where
  "parse_members 0 cs = None"
| "parse_members (Suc n) cs =
     (case parse_member cs of
        None \<Rightarrow> None
      | Some (m, rest) \<Rightarrow>
          if rest = ''}'' then Some [m]
          else (case rest of
                  [] \<Rightarrow> None
                | c # after \<Rightarrow>
                    if c = CHR '','' then map_option ((#) m) (parse_members n after)
                    else None))"

definition parse_object :: "string \<Rightarrow> (string \<times> jvalue) list option" where
  "parse_object cs =
     (case cs of
        [] \<Rightarrow> None
      | c # rest \<Rightarrow>
          if c = CHR ''{'' then (if rest = ''}'' then Some [] else parse_members (length rest) rest)
          else None)"

definition first_error :: "example_error option \<Rightarrow> example_error \<Rightarrow> example_error option" where
  "first_error e new = (case e of None \<Rightarrow> Some new | Some old \<Rightarrow> Some old)"

definition decode_member :: "counts \<times> example_error option \<Rightarrow> string \<times> jvalue
    \<Rightarrow> counts \<times> example_error option" where
  "decode_member acc m =
     (case (acc, m) of
        ((d, e), (k, v)) \<Rightarrow>
          if k = ''Count'' then
            (case v of JNumber n \<Rightarrow> (d\<lparr>Count := n\<rparr>, e)
                     | JString _ \<Rightarrow> (d, first_error e (Unmarshal_type_error k)))
          else if k = ''ScannedCount'' then
            (case v of JNumber n \<Rightarrow> (d\<lparr>ScannedCount := n\<rparr>, e)
                     | JString _ \<Rightarrow> (d, first_error e (Unmarshal_type_error k)))
          else (d, e))"

definition example_Unmarshal :: "bytes \<Rightarrow> counts \<Rightarrow> counts \<times> example_error option" where
  "example_Unmarshal body dest =
     (case parse_object body of
        None \<Rightarrow> (dest, Some Syntax_error)
      | Some ms \<Rightarrow> foldl decode_member (dest, None) ms)"

definition example_json :: "(example_doc, counts, example_error) json" where
  "example_json = \<lparr>Marshal = example_Marshal, Unmarshal = example_Unmarshal\<rparr>"

text \<open>
  The rest of the package in the instance: the endpoint is left as it is, the error hook
  wraps the status of the failed response, and a value of the debug flags is the list of
  the flags that are set.
\<close>

datatype example_flag = Flag_requests | Flag_responses

definition example_package :: "(example_flag list, nat, example_error) package" where
  "example_package =
     \<lparr>FixEndpointUrl = (\<lambda>u. u),
      buildError = Service_error,
      HasFlag = (\<lambda>v f. \<exists>x \<in> set f. x \<in> set v),
      DebugRequests = [Flag_requests],
      DebugResponses = [Flag_responses]\<rparr>"

text \<open>
  The world of the instance is the list of responses that the remote side will give, the
  next one first; the transport takes one per request and fails with status 0 when none
  is left. The timestamp is a number; the hashes are toy functions.
\<close>

definition example_Transport :: "request \<Rightarrow> (nat + bytes) list \<Rightarrow> (nat + bytes) \<times> (nat + bytes) list" where
  "example_Transport req n = (case n of [] \<Rightarrow> (Inl 0, []) | r # rest \<Rightarrow> (r, rest))"

definition example_environment :: "((nat + bytes) list, nat, nat) environment" where
  "example_environment =
     \<lparr>Transport = example_Transport,
      now = length,
      hash = rev,
      keyed_hash = (\<lambda>k d. k @ ''|'' @ d),
      date_of = (\<lambda>ts. replicate ts CHR ''d''),
      stamp_of = (\<lambda>ts. replicate ts CHR ''t''),
      http_method = ''POST'',
      canonical_uri = ''/'',
      header_authorization = ''Authorization'',
      header_timestamp = ''X-Amz-Date'',
      header_token = ''X-Amz-Security-Token'',
      header_target = ''X-Amz-Target'',
      header_content_type = ''Content-Type'',
      content_type = ''application/x-amz-json-1.0''\<rparr>"

definition example_config :: ExecutorConfig where
  "example_config =
     \<lparr>Region = ''us-east-1'', AccessKey = ''AKID'', SecretKey = ''secret'',
      SessionToken = '''', Endpoint = ''''\<rparr>"

definition example_state :: "(nat + bytes) list
    \<Rightarrow> ((nat + bytes) list, example_flag list, nat, example_error, nat) state" where
  "example_state n =
     \<lparr>heap = [], globals = \<lparr>Debug = [Flag_requests], DebugFunc = 7\<rparr>, network = n,
      trace = []\<rparr>"

text \<open>
  A test double for the interface \<^verbatim>\<open>AwsRequester\<close>: it serves the queued responses, one per
  call, and turns a queued failure into an error.
\<close>

definition example_Requester :: "((nat + bytes) list, nat, example_error, nat) AwsRequester" where
  "example_Requester =
     Other_Requester (\<lambda>target buf n.
       case n of
         [] \<Rightarrow> (([], Some (Service_error 0)), [])
       | r # rest \<Rightarrow>
           (case r of
              Inr body \<Rightarrow> ((body, None), rest)
            | Inl status \<Rightarrow> (([], Some (Service_error status)), rest)))"

text \<open>A state whose heap holds one executor, at address 0, with the test double.\<close>

definition example_double_state :: "(nat + bytes) list
    \<Rightarrow> ((nat + bytes) list, example_flag list, nat, example_error, nat) state" where
  "example_double_state n = (example_state n)\<lparr>heap := [\<lparr>Requester = example_Requester\<rparr>]\<rparr>"

text \<open>
  A second test double: it reaches no server, and every call fails with the error of its
  own transport, as that transport gives it. The state holds one executor, at address 0,
  with this double.
\<close>

definition refusing_Requester :: "((nat + bytes) list, nat, example_error, nat) AwsRequester" where
  "refusing_Requester = Other_Requester (\<lambda>target buf n. (([], Some Connection_refused), n))"

definition refusing_state
    :: "((nat + bytes) list, example_flag list, nat, example_error, nat) state" where
  "refusing_state = (example_state [])\<lparr>heap := [\<lparr>Requester = refusing_Requester\<rparr>]\<rparr>"

text \<open>
  Modelled from the spec: the effects that one call of the method \<^verbatim>\<open>MakeRequest\<close> of
  \<^verbatim>\<open>aws.RequestMaker\<close> adds (section 4.2), written out: the trace of the request if the
  request flag of the request maker is set, the one request sent, and the trace of the
  response if the response flag is set.
\<close>

definition dispatch_events :: "('n, 'raw, 'ts) environment \<Rightarrow> ('raw, 'err, 'dbg) RequestMaker
    \<Rightarrow> string \<Rightarrow> bytes \<Rightarrow> 'n \<Rightarrow> ('raw, 'dbg) event list" where
  "dispatch_events env rm target body n =
     (let req = signed_request env rm target body (now env n) in
        (if rm_DebugRequests rm then [Debug_request (rm_DebugFunc rm) req] else [])
        @ [Transport_send req]
        @ (if rm_DebugResponses rm
           then [Debug_response (rm_DebugFunc rm) (fst (Transport env req n))] else []))"

text \<open>The operation targets of the schema methods in the instance.\<close>

definition example_target_of :: "schema_method \<Rightarrow> string" where
  "example_target_of m =
     (case m of CreateTable \<Rightarrow> ''CreateTable'' | DeleteTable \<Rightarrow> ''DeleteTable''
      | DescribeTable \<Rightarrow> ''DescribeTable'' | ListTables \<Rightarrow> ''ListTables'')"

section \<open>Properties\<close>

subsection \<open>Auxiliary facts\<close>

lemma NewAwsExecutor_eq:
  "NewAwsExecutor pkg config s =
     (Some (length (heap s)),
      s\<lparr>heap := heap s @
         [\<lparr>Requester = RequestMaker_ptr (new_requester pkg (globals s) (default_Endpoint config))\<rparr>]\<rparr>)"
  by (simp add: NewAwsExecutor_def new_executor_def)

lemma deref_new: "deref (h @ [x]) (Some (length h)) = Some x"
  by (simp add: deref_def)

lemma NewAwsExecutor_deref:
  assumes "NewAwsExecutor pkg config s = (e, s')"
  shows "deref (heap s') e =
     Some \<lparr>Requester = RequestMaker_ptr (new_requester pkg (globals s) (default_Endpoint config))\<rparr>"
  using assms by (auto simp: NewAwsExecutor_eq deref_new)

subsection \<open>The derived endpoint\<close>

text \<open>
  Claim C3. When the field \<^verbatim>\<open>Endpoint\<close> of the configuration is the empty string, the
  constructor derives the endpoint \<^verbatim>\<open>"https://dynamodb." + Region + ".amazonaws.com/"\<close>; for
  the region \<^verbatim>\<open>us-east-1\<close> that is \<^verbatim>\<open>https://dynamodb.us-east-1.amazonaws.com/\<close>; an endpoint
  that is not empty is kept. The derived endpoint is what the constructor passes to
  \<^verbatim>\<open>aws.FixEndpointUrl\<close> for the request maker of the new executor.
\<close>

theorem NewAwsExecutor_derives_endpoint:
  assumes "NewAwsExecutor pkg config s = (e, s')"
  shows "(Endpoint config = '''' \<longrightarrow>
            Endpoint (default_Endpoint config) = ''https://dynamodb.'' @ Region config @ ''.amazonaws.com/'')
       \<and> (Endpoint config = '''' \<and> Region config = ''us-east-1'' \<longrightarrow>
            Endpoint (default_Endpoint config) = ''https://dynamodb.us-east-1.amazonaws.com/'')
       \<and> (Endpoint config \<noteq> '''' \<longrightarrow> Endpoint (default_Endpoint config) = Endpoint config)
       \<and> (\<exists>rm. deref (heap s') e = Some \<lparr>Requester = RequestMaker_ptr rm\<rparr>
              \<and> rm_Endpoint rm = FixEndpointUrl pkg (Endpoint (default_Endpoint config)))"
proof -
  have "rm_Endpoint (new_requester pkg (globals s) (default_Endpoint config))
      = FixEndpointUrl pkg (Endpoint (default_Endpoint config))"
    by (simp add: new_requester_def)
  with NewAwsExecutor_deref[OF assms]
  have "\<exists>rm. deref (heap s') e = Some \<lparr>Requester = RequestMaker_ptr rm\<rparr>
            \<and> rm_Endpoint rm = FixEndpointUrl pkg (Endpoint (default_Endpoint config))"
    by blast
  then show ?thesis by (simp add: default_Endpoint_def)
qed

theorem NewAwsExecutor_derives_endpoint_witness:
  "Endpoint example_config = '''' \<and> Region example_config = ''us-east-1''
   \<and> Endpoint (default_Endpoint example_config) = ''https://dynamodb.us-east-1.amazonaws.com/''
   \<and> (\<exists>rm. deref (heap (snd (NewAwsExecutor example_package example_config (example_state []))))
                (fst (NewAwsExecutor example_package example_config (example_state [])))
              = Some \<lparr>Requester = RequestMaker_ptr rm\<rparr>
           \<and> rm_Endpoint rm = ''https://dynamodb.us-east-1.amazonaws.com/'')
   \<and> Endpoint (example_config\<lparr>Endpoint := ''http://localhost:8000/''\<rparr>) \<noteq> ''''
   \<and> Endpoint (default_Endpoint (example_config\<lparr>Endpoint := ''http://localhost:8000/''\<rparr>))
       = ''http://localhost:8000/''"
proof -
  have a: "NewAwsExecutor example_package example_config (example_state [])
      = (fst (NewAwsExecutor example_package example_config (example_state [])),
         snd (NewAwsExecutor example_package example_config (example_state [])))"
    by simp
  have b: "NewAwsExecutor example_package (example_config\<lparr>Endpoint := ''http://localhost:8000/''\<rparr>)
             (example_state [])
      = (fst (NewAwsExecutor example_package (example_config\<lparr>Endpoint := ''http://localhost:8000/''\<rparr>)
                (example_state [])),
         snd (NewAwsExecutor example_package (example_config\<lparr>Endpoint := ''http://localhost:8000/''\<rparr>)
                (example_state [])))"
    by simp
  have c: "Endpoint example_config = ''''" "Region example_config = ''us-east-1''"
    "FixEndpointUrl example_package = (\<lambda>u. u)"
    by (simp_all add: example_config_def example_package_def)
  show ?thesis
    using NewAwsExecutor_derives_endpoint[OF a] NewAwsExecutor_derives_endpoint[OF b] c
    by (auto simp: example_config_def)
qed

subsection \<open>A document that cannot be serialized\<close>

text \<open>
  Claim C4. When \<^verbatim>\<open>json.Marshal\<close> fails on the request document, \<^verbatim>\<open>makeRequest\<close> returns the
  marshaling error and the requester is not invoked: the state is the one before the
  call, with no effect recorded and the world untouched, whatever the receiver is (a nil
  receiver included). \<^verbatim>\<open>MakeRequestUnmarshal\<close> returns the same error and leaves the
  destination as it was.
\<close>

theorem makeRequest_marshal_failure:
  assumes "Marshal js document = (buf, Some err)"
  shows "makeRequest env js e target document s = Some (([], Some err), s)
       \<and> MakeRequestUnmarshal env js e target document dest s = Some ((dest, Some err), s)"
  using assms by (simp add: makeRequest_def MakeRequestUnmarshal_def)

theorem makeRequest_marshal_failure_witness:
  "Marshal example_json Unserializable = ([], Some Unsupported_type)
   \<and> makeRequest example_environment example_json (Some 0) ''GetItem'' Unserializable
        (example_double_state [Inr ''{}''])
      = Some (([], Some Unsupported_type), example_double_state [Inr ''{}''])
   \<and> MakeRequestUnmarshal example_environment example_json (Some 0) ''GetItem'' Unserializable
        \<lparr>Count = 0, ScannedCount = 0\<rparr> (example_double_state [Inr ''{}''])
      = Some ((\<lparr>Count = 0, ScannedCount = 0\<rparr>, Some Unsupported_type),
              example_double_state [Inr ''{}''])
   \<and> trace (example_double_state [Inr ''{}'']) = []
   \<and> network (example_double_state [Inr ''{}'']) = [Inr ''{}'']"
proof -
  have m: "Marshal example_json Unserializable = ([], Some Unsupported_type)"
    by (simp add: example_json_def example_Marshal_def)
  show ?thesis
    using m makeRequest_marshal_failure[OF m]
    by (simp add: example_double_state_def example_state_def)
qed

subsection \<open>One call of the requester for each request\<close>

lemma RequestMaker_MakeRequest_trace:
  assumes "RequestMaker_MakeRequest env rm target body s = (res, s')"
  shows "\<exists>evs. trace s' = trace s @ evs \<and> filter is_Requester_call evs = []
        \<and> filter is_Unmarshal_call evs = []"
  using assms
  by (auto simp: RequestMaker_MakeRequest_def Let_def emit_def split: prod.splits sum.splits if_splits)

lemma MakeRequest_trace:
  assumes "r \<noteq> Nil_Requester"
  shows "\<exists>res s' evs. MakeRequest env r target body s = Some (res, s')
       \<and> trace s' = trace s @ evs \<and> filter is_Requester_call evs = [Requester_call target body]
       \<and> filter is_Unmarshal_call evs = []"
proof (cases r)
  case Nil_Requester
  with assms show ?thesis by simp
next
  case (RequestMaker_ptr rm)
  obtain res s' where eq:
    "RequestMaker_MakeRequest env rm target body (emit (Requester_call target body) s) = (res, s')"
    by (cases "RequestMaker_MakeRequest env rm target body (emit (Requester_call target body) s)")
  from RequestMaker_MakeRequest_trace[OF eq] obtain evs where
    "trace s' = trace (emit (Requester_call target body) s) @ evs"
    "filter is_Requester_call evs = []" "filter is_Unmarshal_call evs = []"
    by blast
  then show ?thesis using RequestMaker_ptr eq
    by (simp add: MakeRequest_def emit_def)
next
  case (Other_Requester f)
  then show ?thesis
    by (simp add: MakeRequest_def emit_def split: prod.splits)
qed

lemma MakeRequest_Other:
  "MakeRequest env (Other_Requester f) target body s =
     Some (fst (f target body (network s)),
           (emit (Requester_call target body) s)\<lparr>network := snd (f target body (network s))\<rparr>)"
  by (simp add: MakeRequest_def split: prod.splits)

lemma makeRequest_marshaled:
  assumes "Marshal js document = (buf, None)" and "deref (heap s) e = Some ex"
  shows "makeRequest env js e target document s = MakeRequest env (Requester ex) target buf s"
  using assms by (simp add: makeRequest_def)

lemma MakeRequestUnmarshal_error:
  assumes "makeRequest env js e method document s = Some ((body, Some err), s')"
  shows "MakeRequestUnmarshal env js e method document dest s = Some ((dest, Some err), s')"
  using assms by (simp add: MakeRequestUnmarshal_def)

lemma MakeRequestUnmarshal_success:
  assumes "makeRequest env js e method document s = Some ((body, None), s')"
  shows "MakeRequestUnmarshal env js e method document dest s
       = Some (Unmarshal js body dest, emit (Unmarshal_call body) s')"
  using assms by (simp add: MakeRequestUnmarshal_def)

text \<open>
  Claim C5. A call of \<^verbatim>\<open>makeRequest\<close> whose marshaling succeeds, on an executor with a
  requester, invokes \<^verbatim>\<open>Requester.MakeRequest\<close> exactly once, with the target and the
  marshaled bytes: the call returns what that one invocation returns and leaves the state
  that it leaves; the effects added contain one call of the requester; a requester
  given as a function on the world is applied once to the world before the call. There
  is no retry: an error of the requester is returned to the caller of
  \<^verbatim>\<open>MakeRequestUnmarshal\<close> as it is, with the destination untouched, and a response without
  error goes to \<^verbatim>\<open>json.Unmarshal\<close>.
\<close>

theorem makeRequest_single_attempt:
  assumes "Marshal js document = (buf, None)"
      and "deref (heap s) e = Some ex"
      and "Requester ex \<noteq> Nil_Requester"
  shows "\<exists>res s' evs.
           makeRequest env js e target document s = Some (res, s')
         \<and> MakeRequest env (Requester ex) target buf s = Some (res, s')
         \<and> trace s' = trace s @ evs
         \<and> filter is_Requester_call evs = [Requester_call target buf]
         \<and> (\<forall>f. Requester ex = Other_Requester f \<longrightarrow>
                res = fst (f target buf (network s)) \<and> network s' = snd (f target buf (network s)))
         \<and> (\<forall>err. snd res = Some err \<longrightarrow>
                MakeRequestUnmarshal env js e target document dest s = Some ((dest, Some err), s'))
         \<and> (snd res = None \<longrightarrow>
                MakeRequestUnmarshal env js e target document dest s
                  = Some (Unmarshal js (fst res) dest, emit (Unmarshal_call (fst res)) s'))"
proof -
  from MakeRequest_trace[OF assms(3), of env target buf s] obtain res s' evs where
    r: "MakeRequest env (Requester ex) target buf s = Some (res, s')"
    and t: "trace s' = trace s @ evs" "filter is_Requester_call evs = [Requester_call target buf]"
    by blast
  have m: "makeRequest env js e target document s = Some (res, s')"
    using r by (simp add: makeRequest_marshaled[OF assms(1,2)])
  have o: "\<forall>f. Requester ex = Other_Requester f \<longrightarrow>
      res = fst (f target buf (network s)) \<and> network s' = snd (f target buf (network s))"
    using r by (auto simp: MakeRequest_Other)
  have f: "\<forall>err. snd res = Some err \<longrightarrow>
      MakeRequestUnmarshal env js e target document dest s = Some ((dest, Some err), s')"
    using m by (cases res) (auto intro: MakeRequestUnmarshal_error)
  have g: "snd res = None \<longrightarrow> MakeRequestUnmarshal env js e target document dest s
                  = Some (Unmarshal js (fst res) dest, emit (Unmarshal_call (fst res)) s')"
    using m by (cases res) (auto intro: MakeRequestUnmarshal_success)
  show ?thesis
    by (rule exI[of _ res], rule exI[of _ s'], rule exI[of _ evs]) (use r m t o f g in simp)
qed

lemma example_deref:
  "deref (heap (example_double_state n)) (Some 0) = Some \<lparr>Requester = example_Requester\<rparr>"
  by (simp add: example_double_state_def deref_def)

lemma example_Marshal_key:
  \<open>Marshal example_json (Get_key ''a'') = (''{"Key":"a"}'', None)\<close>
  by (simp add: example_json_def example_Marshal_def)

theorem makeRequest_single_attempt_witness:
  \<open>Marshal example_json (Get_key ''a'') = (''{"Key":"a"}'', None)
   \<and> deref (heap (example_double_state [Inl 400, Inr ''{}''])) (Some 0)
       = Some \<lparr>Requester = example_Requester\<rparr>
   \<and> Requester \<lparr>Requester = example_Requester\<rparr> \<noteq> Nil_Requester
   \<and> makeRequest example_environment example_json (Some 0) ''GetItem'' (Get_key ''a'')
        (example_double_state [Inl 400, Inr ''{}''])
      = Some (([], Some (Service_error 400)),
              (example_double_state [Inr ''{}''])
                \<lparr>trace := [Requester_call ''GetItem'' ''{"Key":"a"}'']\<rparr>)
   \<and> MakeRequestUnmarshal example_environment example_json (Some 0) ''GetItem'' (Get_key ''a'')
        \<lparr>Count = 0, ScannedCount = 0\<rparr> (example_double_state [Inl 400, Inr ''{}''])
      = Some ((\<lparr>Count = 0, ScannedCount = 0\<rparr>, Some (Service_error 400)),
              (example_double_state [Inr ''{}''])
                \<lparr>trace := [Requester_call ''GetItem'' ''{"Key":"a"}'']\<rparr>)\<close>
proof -
  have n: "Requester \<lparr>Requester = example_Requester\<rparr> \<noteq> Nil_Requester"
    by (simp add: example_Requester_def)
  show ?thesis
    using makeRequest_single_attempt[OF example_Marshal_key
        example_deref[of "[Inl 400, Inr ''{}'']"] n,
        where env = example_environment and target = "''GetItem''"
          and dest = "\<lparr>Count = 0, ScannedCount = 0\<rparr>"]
      example_Marshal_key n
    by (auto simp: example_deref example_Requester_def example_double_state_def
        example_state_def emit_def MakeRequest_Other deref_def)
qed

subsection \<open>Evaluation of the instance\<close>

lemmas example_decoder_defs =
  example_json_def example_Unmarshal_def parse_object_def parse_member_def parse_value_def
  is_digit_def digits_value_def decode_member_def first_error_def

lemmas example_run_defs =
  example_Requester_def example_double_state_def example_state_def emit_def
  MakeRequest_Other deref_def

lemma example_constructed:
  "NewAwsExecutor example_package example_config (example_state n)
     = (Some 0,
        (example_state n)\<lparr>heap :=
           [\<lparr>Requester = RequestMaker_ptr
               (new_requester example_package \<lparr>Debug = [Flag_requests], DebugFunc = 7::nat\<rparr>
                  (default_Endpoint example_config))\<rparr>]\<rparr>)"
  by (simp add: NewAwsExecutor_eq example_state_def)

lemma example_Transport_fails:
  "fst (Transport example_environment req (Inl st # rest)) = Inl st"
  by (simp add: example_environment_def example_Transport_def)

subsection \<open>Construction validates nothing\<close>

text \<open>
  Claim C6, as stated, fails: the constructor has no error result and checks nothing. On
  the configuration whose region, keys, token and endpoint are all empty it returns a
  pointer to a new executor, which is not nil, with the endpoint
  \<^verbatim>\<open>https://dynamodb..amazonaws.com/\<close> and a signer with empty credentials.
\<close>

theorem NewAwsExecutor_accepts_empty_config:
  "NewAwsExecutor example_package
     \<lparr>Region = '''', AccessKey = '''', SecretKey = '''', SessionToken = '''', Endpoint = ''''\<rparr>
     (example_state [])
   = (Some 0,
      \<lparr>heap = [\<lparr>Requester = RequestMaker_ptr
                 \<lparr>rm_Endpoint = ''https://dynamodb..amazonaws.com/'',
                  rm_Signer = \<lparr>signer_Region = '''', signer_AccessKey = '''',
                               signer_SecretKey = '''', signer_SessionToken = '''',
                               signer_Service = ''dynamodb''\<rparr>,
                  rm_BuildError = Service_error,
                  rm_DebugRequests = True,
                  rm_DebugResponses = False,
                  rm_DebugFunc = 7\<rparr>\<rparr>],
       globals = \<lparr>Debug = [Flag_requests], DebugFunc = 7\<rparr>,
       network = [],
       trace = []\<rparr>)"
  by (simp add: NewAwsExecutor_eq new_requester_def new_signer_def default_Endpoint_def
      example_package_def example_state_def)

text \<open>
  Claim C6, amended. \<^verbatim>\<open>NewAwsExecutor\<close> validates nothing and cannot fail: for every
  configuration, an empty region or empty keys included, it returns a pointer that is
  not nil to a new executor whose signer holds the fields of the configuration as they
  are, with the service \<^verbatim>\<open>dynamodb\<close>. The construction performs no network activity: the
  world and the recorded effects are unchanged.
\<close>

theorem NewAwsExecutor_total:
  "\<exists>rm. NewAwsExecutor pkg config s
          = (Some (length (heap s)), s\<lparr>heap := heap s @ [\<lparr>Requester = RequestMaker_ptr rm\<rparr>]\<rparr>)
      \<and> rm_Signer rm = \<lparr>signer_Region = Region config, signer_AccessKey = AccessKey config,
                         signer_SecretKey = SecretKey config,
                         signer_SessionToken = SessionToken config,
                         signer_Service = ''dynamodb''\<rparr>
      \<and> network (snd (NewAwsExecutor pkg config s)) = network s
      \<and> trace (snd (NewAwsExecutor pkg config s)) = trace s
      \<and> deref (heap (snd (NewAwsExecutor pkg config s))) (fst (NewAwsExecutor pkg config s))
          = Some \<lparr>Requester = RequestMaker_ptr rm\<rparr>"
  by (simp add: NewAwsExecutor_eq deref_new new_requester_def new_signer_def default_Endpoint_def)

subsection \<open>The configuration is passed by value\<close>

text \<open>
  Claim C10. \<^verbatim>\<open>NewAwsExecutor\<close> receives its configuration by value: the assignment of the
  default endpoint changes the cell of the parameter only. After the call every cell of
  the caller holds what it held before, the variable of the argument and its field
  \<^verbatim>\<open>Endpoint\<close> included, and the executor is the one built from the value of the
  argument.
\<close>

theorem call_NewAwsExecutor_by_value:
  assumes "x < length cells"
  shows "\<exists>e s'. call_NewAwsExecutor pkg x cells s
            = Some (e, cells @ [default_Endpoint (cells ! x)], s')
        \<and> NewAwsExecutor pkg (cells ! x) s = (e, s')
        \<and> (cells @ [default_Endpoint (cells ! x)]) ! x = cells ! x
        \<and> take (length cells) (cells @ [default_Endpoint (cells ! x)]) = cells"
  using assms
  by (auto simp: call_NewAwsExecutor_def Let_def NewAwsExecutor_def default_Endpoint_def
      nth_append split: prod.splits)

theorem call_NewAwsExecutor_by_value_witness:
  "(0::nat) < length [example_config]
   \<and> call_NewAwsExecutor example_package 0 [example_config] (example_state [])
      = Some (fst (NewAwsExecutor example_package example_config (example_state [])),
              [example_config,
               example_config\<lparr>Endpoint := ''https://dynamodb.us-east-1.amazonaws.com/''\<rparr>],
              snd (NewAwsExecutor example_package example_config (example_state [])))
   \<and> Endpoint ([example_config,
               example_config\<lparr>Endpoint := ''https://dynamodb.us-east-1.amazonaws.com/''\<rparr>] ! 0) = ''''"
proof -
  have h: "(0::nat) < length [example_config]" by simp
  have d: "default_Endpoint example_config
      = example_config\<lparr>Endpoint := ''https://dynamodb.us-east-1.amazonaws.com/''\<rparr>"
    by (simp add: default_Endpoint_def example_config_def)
  show ?thesis
    using h call_NewAwsExecutor_by_value[OF h, where pkg = example_package and s = "example_state []"] d
    by (auto simp: example_config_def)
qed

subsection \<open>The schema executor is a view of the executor\<close>

text \<open>
  Claim C7. \<^verbatim>\<open>e.SchemaExecutor()\<close> returns a view that holds the pointer \<^verbatim>\<open>e\<close> itself. A
  schema operation through the view is \<^verbatim>\<open>MakeRequestUnmarshal\<close> on \<^verbatim>\<open>e\<close>, in every state
  (so also after the requester of \<^verbatim>\<open>e\<close> has been swapped): it calls the requester that
  the executor at \<^verbatim>\<open>e\<close> holds at the time of the call, and adds no transport or signing
  of its own.
\<close>

theorem SchemaExecutor_shares_executor:
  assumes "deref (heap s) e = Some ex" and "Marshal js req = (buf, None)"
  shows "executor_of (SchemaExecutor e) = e
       \<and> schema_call env js target_of (SchemaExecutor e) m req dest s
          = MakeRequestUnmarshal env js e (target_of m) req dest s
       \<and> schema_call env js target_of (SchemaExecutor e) m req dest s
          = (case MakeRequest env (Requester ex) (target_of m) buf s of
               None \<Rightarrow> None
             | Some ((body, Some err), s1) \<Rightarrow> Some ((dest, Some err), s1)
             | Some ((body, None), s1) \<Rightarrow>
                 Some (Unmarshal js body dest, emit (Unmarshal_call body) s1))"
  using assms
  by (simp add: SchemaExecutor_def schema_call_def MakeRequestUnmarshal_def makeRequest_def)

theorem SchemaExecutor_shares_executor_witness:
  \<open>deref (heap (example_double_state [Inr ''{"Count":3,"ScannedCount":12}''])) (Some 0)
     = Some \<lparr>Requester = example_Requester\<rparr>
   \<and> Marshal example_json (Get_key ''a'') = (''{"Key":"a"}'', None)
   \<and> executor_of (SchemaExecutor (Some 0)) = Some 0
   \<and> schema_call example_environment example_json example_target_of (SchemaExecutor (Some 0))
        DescribeTable (Get_key ''a'') \<lparr>Count = 0, ScannedCount = 0\<rparr>
        (example_double_state [Inr ''{"Count":3,"ScannedCount":12}''])
      = Some ((\<lparr>Count = 3, ScannedCount = 12\<rparr>, None),
              (example_double_state [])
                \<lparr>trace := [Requester_call ''DescribeTable'' ''{"Key":"a"}'',
                           Unmarshal_call ''{"Count":3,"ScannedCount":12}'']\<rparr>)\<close>
proof -
  have u: \<open>Unmarshal example_json ''{"Count":3,"ScannedCount":12}'' \<lparr>Count = 0, ScannedCount = 0\<rparr>
      = (\<lparr>Count = 3, ScannedCount = 12\<rparr>, None)\<close>
    by (simp add: example_decoder_defs)
  have r: \<open>MakeRequest example_environment example_Requester
       (example_target_of DescribeTable) ''{"Key":"a"}''
       (example_double_state [Inr ''{"Count":3,"ScannedCount":12}''])
     = Some ((''{"Count":3,"ScannedCount":12}'', None),
             (example_double_state [])
               \<lparr>trace := [Requester_call ''DescribeTable'' ''{"Key":"a"}'']\<rparr>)\<close>
    by (simp add: example_run_defs example_target_of_def)
  have t: \<open>emit (Unmarshal_call ''{"Count":3,"ScannedCount":12}'')
         ((example_double_state [])
            \<lparr>trace := [Requester_call ''DescribeTable'' ''{"Key":"a"}'']\<rparr>)
       = (example_double_state [])
           \<lparr>trace := [Requester_call ''DescribeTable'' ''{"Key":"a"}'',
                      Unmarshal_call ''{"Count":3,"ScannedCount":12}'']\<rparr>\<close>
    by (simp add: emit_def)
  show ?thesis
    using SchemaExecutor_shares_executor[OF example_deref example_Marshal_key,
        where env = example_environment and target_of = example_target_of and m = DescribeTable
          and dest = "\<lparr>Count = 0, ScannedCount = 0\<rparr>"
          and n1 = \<open>[Inr ''{"Count":3,"ScannedCount":12}'']\<close>]
      example_deref example_Marshal_key
    by (auto simp: r u t)
qed

subsection \<open>The request maker of a constructed executor\<close>

lemma RequestMaker_MakeRequest_eq:
  "RequestMaker_MakeRequest env rm target body s =
     ((case fst (Transport env (signed_request env rm target body (now env (network s))) (network s)) of
         Inr resp \<Rightarrow> (resp, None)
       | Inl raw \<Rightarrow> ([], Some (rm_BuildError rm raw))),
      s\<lparr>network := snd (Transport env (signed_request env rm target body (now env (network s))) (network s)),
        trace := trace s @ dispatch_events env rm target body (network s)\<rparr>)"
  by (simp add: RequestMaker_MakeRequest_def dispatch_events_def Let_def emit_def
      split: prod.splits sum.splits)

lemma RequestMaker_MakeRequest_globals:
  "RequestMaker_MakeRequest env rm target body (s\<lparr>globals := g\<rparr>) =
     (case RequestMaker_MakeRequest env rm target body s of (r, t) \<Rightarrow> (r, t\<lparr>globals := g\<rparr>))"
  by (simp add: RequestMaker_MakeRequest_eq)

lemma MakeRequest_globals:
  "MakeRequest env r target body (s\<lparr>globals := g\<rparr>) =
     map_option (\<lambda>(r, t). (r, t\<lparr>globals := g\<rparr>)) (MakeRequest env r target body s)"
  by (cases r)
     (simp_all add: MakeRequest_def emit_def RequestMaker_MakeRequest_eq split: prod.splits)

lemma makeRequest_globals:
  "makeRequest env js e target document (s\<lparr>globals := g\<rparr>) =
     map_option (\<lambda>(r, t). (r, t\<lparr>globals := g\<rparr>)) (makeRequest env js e target document s)"
  by (simp add: makeRequest_def MakeRequest_globals split: prod.splits option.splits)

lemma MakeRequestUnmarshal_globals:
  "MakeRequestUnmarshal env js e method document dest (s\<lparr>globals := g\<rparr>) =
     map_option (\<lambda>(r, t). (r, t\<lparr>globals := g\<rparr>))
       (MakeRequestUnmarshal env js e method document dest s)"
  by (simp add: MakeRequestUnmarshal_def makeRequest_globals emit_def
      split: prod.splits option.splits)

lemma constructed_step:
  assumes c: "NewAwsExecutor pkg config s0 = (e, s1)"
      and d: "deref (heap s) e = deref (heap s1) e"
      and m: "Marshal js document = (buf, None)"
  shows "makeRequest env js e target document s =
     Some (RequestMaker_MakeRequest env (new_requester pkg (globals s0) (default_Endpoint config))
             target buf (emit (Requester_call target buf) s))"
  using m d NewAwsExecutor_deref[OF c]
  by (simp add: makeRequest_def MakeRequest_def)

lemma constructed_dispatch_failure:
  assumes c: "NewAwsExecutor pkg config s0 = (e, s1)"
      and d: "deref (heap s) e = deref (heap s1) e"
      and m: "Marshal js document = (buf, None)"
      and f: "fst (Transport env
                (signed_request env (new_requester pkg (globals s0) (default_Endpoint config))
                   method buf (now env (network s)))
                (network s)) = Inl raw"
  shows "\<exists>s'. makeRequest env js e method document s = Some (([], Some (buildError pkg raw)), s')
       \<and> MakeRequestUnmarshal env js e method document dest s
          = Some ((dest, Some (buildError pkg raw)), s')
       \<and> filter is_Unmarshal_call (trace s') = filter is_Unmarshal_call (trace s)"
proof -
  let ?rm = "new_requester pkg (globals s0) (default_Endpoint config)"
  obtain res s' where r:
    "RequestMaker_MakeRequest env ?rm method buf (emit (Requester_call method buf) s) = (res, s')"
    by (cases "RequestMaker_MakeRequest env ?rm method buf (emit (Requester_call method buf) s)")
  have res: "res = ([], Some (buildError pkg raw))"
    using r f by (auto simp: RequestMaker_MakeRequest_eq emit_def new_requester_def)
  have 2: "makeRequest env js e method document s = Some (([], Some (buildError pkg raw)), s')"
    using r res by (simp add: constructed_step[OF c d m])
  from RequestMaker_MakeRequest_trace[OF r]
  have 3: "filter is_Unmarshal_call (trace s') = filter is_Unmarshal_call (trace s)"
    by (auto simp: emit_def)
  show ?thesis
    by (rule exI[of _ s']) (use 2 3 MakeRequestUnmarshal_error[OF 2] in simp)
qed

lemma requester_error_passes:
  assumes m: "Marshal js document = (buf, None)"
      and d: "deref (heap s) e = Some ex"
      and r: "MakeRequest env (Requester ex) method buf s = Some ((body, Some err), t)"
  shows "makeRequest env js e method document s = Some ((body, Some err), t)
       \<and> MakeRequestUnmarshal env js e method document dest s = Some ((dest, Some err), t)
       \<and> filter is_Unmarshal_call (trace t) = filter is_Unmarshal_call (trace s)"
proof -
  have 1: "makeRequest env js e method document s = Some ((body, Some err), t)"
    using r by (simp add: makeRequest_marshaled[OF m d])
  have n: "Requester ex \<noteq> Nil_Requester"
    using r by (auto simp: MakeRequest_def)
  from MakeRequest_trace[OF n, of env "method" buf s] r
  have 3: "filter is_Unmarshal_call (trace t) = filter is_Unmarshal_call (trace s)"
    by auto
  show ?thesis
    using 1 3 MakeRequestUnmarshal_error[OF 1] by simp
qed

text \<open>
  Claim C1, as stated, fails: the executor applies no hook to the error of its requester.
  The field \<^verbatim>\<open>Requester\<close> (lines 83-89) takes any implementation of \<^verbatim>\<open>AwsRequester\<close>; with
  one that fails with the error of its own transport, the caller of
  \<^verbatim>\<open>MakeRequestUnmarshal\<close> receives that raw error, which is no error that \<^verbatim>\<open>buildError\<close>
  builds.
\<close>

theorem custom_requester_error_not_mediated:
  \<open>MakeRequestUnmarshal example_environment example_json (Some 0) ''GetItem'' (Get_key ''a'')
       \<lparr>Count = 0, ScannedCount = 0\<rparr> refusing_state
   = Some ((\<lparr>Count = 0, ScannedCount = 0\<rparr>, Some Connection_refused),
           refusing_state\<lparr>trace := [Requester_call ''GetItem'' ''{"Key":"a"}'']\<rparr>)
   \<and> Connection_refused \<notin> range (buildError example_package)\<close>
proof -
  have d: "deref (heap refusing_state) (Some 0) = Some \<lparr>Requester = refusing_Requester\<rparr>"
    by (simp add: refusing_state_def deref_def)
  have r: \<open>makeRequest example_environment example_json (Some 0) ''GetItem'' (Get_key ''a'')
       refusing_state
     = Some (([], Some Connection_refused),
             refusing_state\<lparr>trace := [Requester_call ''GetItem'' ''{"Key":"a"}'']\<rparr>)\<close>
    by (subst makeRequest_marshaled[OF example_Marshal_key d])
       (simp add: refusing_Requester_def refusing_state_def example_state_def emit_def
          MakeRequest_Other)
  have b: "Connection_refused \<notin> range (buildError example_package)"
    by (auto simp: example_package_def)
  show ?thesis
    using MakeRequestUnmarshal_error[OF r] b by simp
qed

text \<open>
  Claim C1, amended. \<^verbatim>\<open>MakeRequestUnmarshal\<close> returns the error of
  \<^verbatim>\<open>Requester.MakeRequest\<close> unchanged, whatever the requester is: it leaves the destination
  as it was and does not call \<^verbatim>\<open>json.Unmarshal\<close>. When the requester is the request maker
  that \<^verbatim>\<open>NewAwsExecutor\<close> installed, whose hook is \<^verbatim>\<open>buildError\<close>, and the transport reports
  a failure for the request, that error is the one that \<^verbatim>\<open>buildError\<close> builds from the raw
  failure, never the raw failure itself.
\<close>

theorem requester_error_returned_unchanged:
  assumes m: "Marshal js document = (buf, None)"
  shows "(deref (heap s) e = Some ex
          \<and> MakeRequest env (Requester ex) op buf s = Some ((body, Some err), t)
          \<longrightarrow> makeRequest env js e op document s = Some ((body, Some err), t)
            \<and> MakeRequestUnmarshal env js e op document dest s = Some ((dest, Some err), t)
            \<and> filter is_Unmarshal_call (trace t) = filter is_Unmarshal_call (trace s))
       \<and> (NewAwsExecutor pkg config sa = (e, sb)
          \<and> deref (heap s) e = deref (heap sb) e
          \<and> fst (Transport env
                (signed_request env (new_requester pkg (globals sa) (default_Endpoint config))
                   op buf (now env (network s)))
                (network s)) = Inl raw
          \<longrightarrow> (\<exists>s'. makeRequest env js e op document s
                       = Some (([], Some (buildError pkg raw)), s')
                 \<and> MakeRequestUnmarshal env js e op document dest s
                       = Some ((dest, Some (buildError pkg raw)), s')
                 \<and> filter is_Unmarshal_call (trace s') = filter is_Unmarshal_call (trace s)))"
proof (intro conjI impI)
  assume a: "deref (heap s) e = Some ex
      \<and> MakeRequest env (Requester ex) op buf s = Some ((body, Some err), t)"
  from requester_error_passes[OF m conjunct1[OF a] conjunct2[OF a], where dest = dest]
  show "makeRequest env js e op document s = Some ((body, Some err), t)"
    and "MakeRequestUnmarshal env js e op document dest s = Some ((dest, Some err), t)"
    and "filter is_Unmarshal_call (trace t) = filter is_Unmarshal_call (trace s)"
    by simp_all
next
  assume b: "NewAwsExecutor pkg config sa = (e, sb)
      \<and> deref (heap s) e = deref (heap sb) e
      \<and> fst (Transport env
            (signed_request env (new_requester pkg (globals sa) (default_Endpoint config))
               op buf (now env (network s)))
            (network s)) = Inl raw"
  then have c: "NewAwsExecutor pkg config sa = (e, sb)"
    and d: "deref (heap s) e = deref (heap sb) e"
    and f: "fst (Transport env
            (signed_request env (new_requester pkg (globals sa) (default_Endpoint config))
               op buf (now env (network s)))
            (network s)) = Inl raw"
    by simp_all
  show "\<exists>s'. makeRequest env js e op document s = Some (([], Some (buildError pkg raw)), s')
       \<and> MakeRequestUnmarshal env js e op document dest s
          = Some ((dest, Some (buildError pkg raw)), s')
       \<and> filter is_Unmarshal_call (trace s') = filter is_Unmarshal_call (trace s)"
    by (rule constructed_dispatch_failure[OF c d m f])
qed

theorem requester_error_returned_unchanged_witness:
  \<open>Marshal example_json (Get_key ''a'') = (''{"Key":"a"}'', None)
   \<and> deref (heap refusing_state) (Some 0) = Some \<lparr>Requester = refusing_Requester\<rparr>
   \<and> MakeRequest example_environment (Requester \<lparr>Requester = refusing_Requester\<rparr>) ''GetItem''
        ''{"Key":"a"}'' refusing_state
      = Some (([], Some Connection_refused),
              refusing_state\<lparr>trace := [Requester_call ''GetItem'' ''{"Key":"a"}'']\<rparr>)
   \<and> MakeRequestUnmarshal example_environment example_json (Some 0) ''GetItem'' (Get_key ''a'')
        \<lparr>Count = 0, ScannedCount = 0\<rparr> refusing_state
      = Some ((\<lparr>Count = 0, ScannedCount = 0\<rparr>, Some Connection_refused),
              refusing_state\<lparr>trace := [Requester_call ''GetItem'' ''{"Key":"a"}'']\<rparr>)
   \<and> NewAwsExecutor example_package example_config (example_state [Inl 503])
      = (Some 0, snd (NewAwsExecutor example_package example_config (example_state [Inl 503])))
   \<and> fst (Transport example_environment
          (signed_request example_environment
             (new_requester example_package (globals (example_state [Inl 503]))
                (default_Endpoint example_config))
             ''GetItem'' ''{"Key":"a"}''
             (now example_environment
                (network (snd (NewAwsExecutor example_package example_config (example_state [Inl 503]))))))
          (network (snd (NewAwsExecutor example_package example_config (example_state [Inl 503])))))
       = Inl 503
   \<and> map_option fst
         (MakeRequestUnmarshal example_environment example_json (Some 0) ''GetItem'' (Get_key ''a'')
            \<lparr>Count = 0, ScannedCount = 0\<rparr>
            (snd (NewAwsExecutor example_package example_config (example_state [Inl 503]))))
       = Some (\<lparr>Count = 0, ScannedCount = 0\<rparr>, Some (Service_error 503))\<close>
proof -
  let ?s = "snd (NewAwsExecutor example_package example_config (example_state [Inl 503]))"
  let ?t = \<open>refusing_state\<lparr>trace := [Requester_call ''GetItem'' ''{"Key":"a"}'']\<rparr>\<close>
  have d: "deref (heap refusing_state) (Some 0) = Some \<lparr>Requester = refusing_Requester\<rparr>"
    by (simp add: refusing_state_def deref_def)
  have r: \<open>MakeRequest example_environment (Requester \<lparr>Requester = refusing_Requester\<rparr>) ''GetItem''
        ''{"Key":"a"}'' refusing_state = Some (([], Some Connection_refused), ?t)\<close>
    by (simp add: refusing_Requester_def refusing_state_def example_state_def emit_def
        MakeRequest_Other)
  have c: "NewAwsExecutor example_package example_config (example_state [Inl 503]) = (Some 0, ?s)"
    by (simp add: example_constructed)
  have n: "network ?s = [Inl 503]"
    by (simp add: NewAwsExecutor_eq example_state_def)
  have f: \<open>fst (Transport example_environment
          (signed_request example_environment
             (new_requester example_package (globals (example_state [Inl 503]))
                (default_Endpoint example_config))
             ''GetItem'' ''{"Key":"a"}'' (now example_environment (network ?s)))
          (network ?s)) = Inl 503\<close>
    by (simp only: n example_Transport_fails)
  have b: "buildError example_package = Service_error"
    by (simp add: example_package_def)
  note first = requester_error_returned_unchanged[OF example_Marshal_key,
      where s = refusing_state and e = "Some 0" and ex = "\<lparr>Requester = refusing_Requester\<rparr>"
        and env = example_environment and op = "''GetItem''" and body = "[]"
        and err = Connection_refused and t = ?t
        and dest = "\<lparr>Count = 0, ScannedCount = 0\<rparr>", THEN conjunct1, rule_format, OF conjI[OF d r]]
  note second = requester_error_returned_unchanged[OF example_Marshal_key,
      where s = ?s and e = "Some 0" and env = example_environment and op = "''GetItem''"
        and pkg = example_package and config = example_config
        and sa = "example_state [Inl 503]" and sb = ?s and raw = 503
        and dest = "\<lparr>Count = 0, ScannedCount = 0\<rparr>", THEN conjunct2, rule_format,
      OF conjI[OF c conjI[OF refl f]]]
  show ?thesis
    using first second example_Marshal_key d r c f b by auto
qed

text \<open>
  Claim C9. The request flag, the response flag and the debug function of the request
  maker of an executor are read from the globals \<^verbatim>\<open>Debug\<close> and \<^verbatim>\<open>DebugFunc\<close> once, by
  \<^verbatim>\<open>NewAwsExecutor\<close>. A later change of the globals does not change the debug behaviour of
  the executor: a request made under any other value \<open>g\<close> of the globals returns the same
  result and adds the same effects, which are the ones that the flags and the function
  of the time of construction give.
\<close>

theorem debug_flags_fixed_at_construction:
  assumes c: "NewAwsExecutor pkg config s0 = (e, s1)"
      and d: "deref (heap s) e = deref (heap s1) e"
      and m: "Marshal js document = (buf, None)"
  shows "\<exists>rm res s'.
           deref (heap s1) e = Some \<lparr>Requester = RequestMaker_ptr rm\<rparr>
         \<and> rm_DebugRequests rm = HasFlag pkg (Debug (globals s0)) (DebugRequests pkg)
         \<and> rm_DebugResponses rm = HasFlag pkg (Debug (globals s0)) (DebugResponses pkg)
         \<and> rm_DebugFunc rm = DebugFunc (globals s0)
         \<and> makeRequest env js e target document s = Some (res, s')
         \<and> trace s' = trace s @ Requester_call target buf
                                 # dispatch_events env rm target buf (network s)
         \<and> makeRequest env js e target document (s\<lparr>globals := g\<rparr>)
             = Some (res, s'\<lparr>globals := g\<rparr>)
         \<and> MakeRequestUnmarshal env js e target document dest (s\<lparr>globals := g\<rparr>)
             = map_option (\<lambda>(r, t). (r, t\<lparr>globals := g\<rparr>))
                 (MakeRequestUnmarshal env js e target document dest s)"
proof -
  let ?rm = "new_requester pkg (globals s0) (default_Endpoint config)"
  obtain res s' where r:
    "RequestMaker_MakeRequest env ?rm target buf (emit (Requester_call target buf) s) = (res, s')"
    by (cases "RequestMaker_MakeRequest env ?rm target buf (emit (Requester_call target buf) s)")
  have 1: "deref (heap s1) e = Some \<lparr>Requester = RequestMaker_ptr ?rm\<rparr>"
    by (rule NewAwsExecutor_deref[OF c])
  have 2: "makeRequest env js e target document s = Some (res, s')"
    using r by (simp add: constructed_step[OF c d m])
  have 3: "trace s' = trace s @ Requester_call target buf
                                 # dispatch_events env ?rm target buf (network s)"
    using r by (auto simp: RequestMaker_MakeRequest_eq emit_def)
  have 4: "makeRequest env js e target document (s\<lparr>globals := g\<rparr>)
             = Some (res, s'\<lparr>globals := g\<rparr>)"
    using 2 by (simp add: makeRequest_globals)
  show ?thesis
    by (rule exI[of _ ?rm], rule exI[of _ res], rule exI[of _ s'])
       (use 1 2 3 4 in \<open>simp add: new_requester_def MakeRequestUnmarshal_globals\<close>)
qed

theorem debug_flags_fixed_at_construction_witness:
  \<open>NewAwsExecutor example_package example_config (example_state [Inr ''{}''])
     = (Some 0, snd (NewAwsExecutor example_package example_config (example_state [Inr ''{}''])))
   \<and> Marshal example_json (Get_key ''a'') = (''{"Key":"a"}'', None)
   \<and> (\<exists>res s'.
         makeRequest example_environment example_json (Some 0) ''GetItem'' (Get_key ''a'')
           ((snd (NewAwsExecutor example_package example_config (example_state [Inr ''{}''])))
              \<lparr>globals := \<lparr>Debug = [Flag_responses], DebugFunc = 9\<rparr>\<rparr>)
         = Some (res, s')
       \<and> globals s' = \<lparr>Debug = [Flag_responses], DebugFunc = 9\<rparr>
       \<and> trace s' =
           [Requester_call ''GetItem'' ''{"Key":"a"}'',
            Debug_request (7::nat)
              (signed_request example_environment
                 (new_requester example_package \<lparr>Debug = [Flag_requests], DebugFunc = 7::nat\<rparr>
                    (default_Endpoint example_config))
                 ''GetItem'' ''{"Key":"a"}'' 1),
            Transport_send
              (signed_request example_environment
                 (new_requester example_package \<lparr>Debug = [Flag_requests], DebugFunc = 7::nat\<rparr>
                    (default_Endpoint example_config))
                 ''GetItem'' ''{"Key":"a"}'' 1)])\<close>
proof -
  let ?s = "snd (NewAwsExecutor example_package example_config (example_state [Inr ''{}'']))"
  let ?rm = "new_requester example_package \<lparr>Debug = [Flag_requests], DebugFunc = 7::nat\<rparr>
               (default_Endpoint example_config)"
  have c: "NewAwsExecutor example_package example_config (example_state [Inr ''{}'']) = (Some 0, ?s)"
    by (simp add: example_constructed)
  have n: "network ?s = [Inr ''{}'']" "trace ?s = []"
    "globals (example_state [Inr ''{}'']) = \<lparr>Debug = [Flag_requests], DebugFunc = 7::nat\<rparr>"
    "heap ?s = [\<lparr>Requester = RequestMaker_ptr ?rm\<rparr>]"
    by (simp_all add: NewAwsExecutor_eq example_state_def)
  have fl: "rm_DebugRequests ?rm" "\<not> rm_DebugResponses ?rm" "rm_DebugFunc ?rm = 7"
    by (simp_all add: new_requester_def example_package_def)
  have ev: \<open>dispatch_events example_environment ?rm ''GetItem'' ''{"Key":"a"}'' [Inr ''{}'']
      = [Debug_request (7::nat) (signed_request example_environment ?rm ''GetItem'' ''{"Key":"a"}'' 1),
         Transport_send (signed_request example_environment ?rm ''GetItem'' ''{"Key":"a"}'' 1)]\<close>
    using fl by (simp add: dispatch_events_def Let_def) (simp add: example_environment_def)
  show ?thesis
    using debug_flags_fixed_at_construction[OF c refl example_Marshal_key,
        where env = example_environment and target = "''GetItem''"
          and g = "\<lparr>Debug = [Flag_responses], DebugFunc = 9\<rparr>" and dest = "\<lparr>Count = 0, ScannedCount = 0\<rparr>"]
      c example_Marshal_key
    by (auto simp: n ev deref_def)
qed

subsection \<open>Results and errors of a round trip\<close>

text \<open>
  Claim C2, amended. A call of \<^verbatim>\<open>MakeRequestUnmarshal\<close> that returns ends in one of three
  ways. The marshaling failed: its error is returned, the destination and the state are
  untouched. The requester returned an error: that error is returned and the destination
  is untouched. The requester returned no error: the destination and the error are what
  \<^verbatim>\<open>json.Unmarshal(body, dest)\<close> leaves and returns; the code adds no rollback, so the
  destination is unmodified on an unmarshaling error only if \<^verbatim>\<open>json.Unmarshal\<close> itself
  leaves it so.
\<close>

theorem MakeRequestUnmarshal_outcomes:
  assumes "MakeRequestUnmarshal env js e method document dest s = Some ((dest', err), s')"
  shows "(\<exists>buf merr. Marshal js document = (buf, Some merr)
            \<and> err = Some merr \<and> dest' = dest \<and> s' = s)
       \<or> (\<exists>buf ex body rerr. Marshal js document = (buf, None) \<and> deref (heap s) e = Some ex
            \<and> MakeRequest env (Requester ex) method buf s = Some ((body, Some rerr), s')
            \<and> err = Some rerr \<and> dest' = dest)
       \<or> (\<exists>buf ex body s1. Marshal js document = (buf, None) \<and> deref (heap s) e = Some ex
            \<and> MakeRequest env (Requester ex) method buf s = Some ((body, None), s1)
            \<and> (dest', err) = Unmarshal js body dest
            \<and> s' = emit (Unmarshal_call body) s1)"
  using assms
  by (auto simp: MakeRequestUnmarshal_def makeRequest_def split: prod.splits option.splits)

theorem MakeRequestUnmarshal_outcomes_witness:
  \<open>MakeRequestUnmarshal example_environment example_json (Some 0) ''Query'' (Get_key ''a'')
       \<lparr>Count = 0, ScannedCount = 0\<rparr>
       (example_double_state [Inr ''{"Count":3,"ScannedCount":12}''])
   = Some ((\<lparr>Count = 3, ScannedCount = 12\<rparr>, None),
           (example_double_state [])
             \<lparr>trace := [Requester_call ''Query'' ''{"Key":"a"}'',
                        Unmarshal_call ''{"Count":3,"ScannedCount":12}'']\<rparr>)
   \<and> (\<exists>body s1.
         MakeRequest example_environment example_Requester ''Query'' ''{"Key":"a"}''
           (example_double_state [Inr ''{"Count":3,"ScannedCount":12}'']) = Some ((body, None), s1)
       \<and> (\<lparr>Count = 3, ScannedCount = 12\<rparr>, None)
           = Unmarshal example_json body \<lparr>Count = 0, ScannedCount = 0\<rparr>)\<close>
proof -
  have u: \<open>Unmarshal example_json ''{"Count":3,"ScannedCount":12}'' \<lparr>Count = 0, ScannedCount = 0\<rparr>
      = (\<lparr>Count = 3, ScannedCount = 12\<rparr>, None)\<close>
    by (simp add: example_decoder_defs)
  have r: \<open>makeRequest example_environment example_json (Some 0) ''Query'' (Get_key ''a'')
       (example_double_state [Inr ''{"Count":3,"ScannedCount":12}''])
     = Some ((''{"Count":3,"ScannedCount":12}'', None),
             (example_double_state [])\<lparr>trace := [Requester_call ''Query'' ''{"Key":"a"}'']\<rparr>)\<close>
    by (subst makeRequest_marshaled[OF example_Marshal_key example_deref])
       (simp add: example_run_defs)
  have run: \<open>MakeRequestUnmarshal example_environment example_json (Some 0) ''Query'' (Get_key ''a'')
       \<lparr>Count = 0, ScannedCount = 0\<rparr>
       (example_double_state [Inr ''{"Count":3,"ScannedCount":12}''])
   = Some ((\<lparr>Count = 3, ScannedCount = 12\<rparr>, None),
           (example_double_state [])
             \<lparr>trace := [Requester_call ''Query'' ''{"Key":"a"}'',
                        Unmarshal_call ''{"Count":3,"ScannedCount":12}'']\<rparr>)\<close>
    by (simp add: MakeRequestUnmarshal_success[OF r] u) (simp add: example_run_defs)
  show ?thesis
    using MakeRequestUnmarshal_outcomes[OF run] run example_Marshal_key
    by (auto simp: example_deref)
qed

text \<open>
  Claim C2, as stated, fails: with a response whose second member does not fit its field,
  the call returns an error and the destination has been modified (\<^verbatim>\<open>Count\<close> is 3, it
  was 0): the caller holds a partly populated result together with an error.
\<close>

theorem MakeRequestUnmarshal_partial_result:
  \<open>MakeRequestUnmarshal example_environment example_json (Some 0) ''Query'' (Get_key ''a'')
       \<lparr>Count = 0, ScannedCount = 0\<rparr>
       (example_double_state [Inr ''{"Count":3,"ScannedCount":"x"}''])
   = Some ((\<lparr>Count = 3, ScannedCount = 0\<rparr>, Some (Unmarshal_type_error ''ScannedCount'')),
           (example_double_state [])
             \<lparr>trace := [Requester_call ''Query'' ''{"Key":"a"}'',
                        Unmarshal_call ''{"Count":3,"ScannedCount":"x"}'']\<rparr>)
   \<and> \<lparr>Count = 3, ScannedCount = 0\<rparr> \<noteq> \<lparr>Count = 0, ScannedCount = 0\<rparr>\<close>
proof -
  have u: \<open>Unmarshal example_json ''{"Count":3,"ScannedCount":"x"}'' \<lparr>Count = 0, ScannedCount = 0\<rparr>
      = (\<lparr>Count = 3, ScannedCount = 0\<rparr>, Some (Unmarshal_type_error ''ScannedCount''))\<close>
    by (simp add: example_decoder_defs)
  have r: \<open>makeRequest example_environment example_json (Some 0) ''Query'' (Get_key ''a'')
       (example_double_state [Inr ''{"Count":3,"ScannedCount":"x"}''])
     = Some ((''{"Count":3,"ScannedCount":"x"}'', None),
             (example_double_state [])\<lparr>trace := [Requester_call ''Query'' ''{"Key":"a"}'']\<rparr>)\<close>
    by (subst makeRequest_marshaled[OF example_Marshal_key example_deref])
       (simp add: example_run_defs)
  show ?thesis
    by (simp add: MakeRequestUnmarshal_success[OF r] u)
       (simp add: example_run_defs)
qed

end
